theory Spec2Isabelle
  imports Complex_Main
begin

section \<open>Python values used by the trader\<close>

text \<open>
  Prices, balances, percentages and indicator values are Python floats. A float is
  modelled as an exact real number or the not-a-number value: rounding to 53 bits,
  overflow to infinity and the sign of zero are not modelled. An int that reaches
  float arithmetic (a JSON integer of the configuration, the \<open>0\<close> that
  \<open>check_if_symbol_in_balance\<close> returns) is the real of the same value.
\<close>

datatype pyfloat = Flt real | NaN

datatype py_error = ZeroDivisionError | IndexError | ValueError | TypeError

text \<open>Comparisons: every ordered comparison with not-a-number is false.\<close>

fun py_lt :: "pyfloat \<Rightarrow> pyfloat \<Rightarrow> bool" where
  "py_lt (Flt a) (Flt b) = (a < b)"
| "py_lt _ _ = False"

fun py_gt :: "pyfloat \<Rightarrow> pyfloat \<Rightarrow> bool" where
  "py_gt (Flt a) (Flt b) = (a > b)"
| "py_gt _ _ = False"

fun py_ge :: "pyfloat \<Rightarrow> pyfloat \<Rightarrow> bool" where
  "py_ge (Flt a) (Flt b) = (a \<ge> b)"
| "py_ge _ _ = False"

fun py_le :: "pyfloat \<Rightarrow> pyfloat \<Rightarrow> bool" where
  "py_le (Flt a) (Flt b) = (a \<le> b)"
| "py_le _ _ = False"

fun py_eq :: "pyfloat \<Rightarrow> pyfloat \<Rightarrow> bool" where
  "py_eq (Flt a) (Flt b) = (a = b)"
| "py_eq _ _ = False"

text \<open>Arithmetic: not-a-number propagates.\<close>

fun py_add :: "pyfloat \<Rightarrow> pyfloat \<Rightarrow> pyfloat" where
  "py_add (Flt a) (Flt b) = Flt (a + b)"
| "py_add _ _ = NaN"

fun py_sub :: "pyfloat \<Rightarrow> pyfloat \<Rightarrow> pyfloat" where
  "py_sub (Flt a) (Flt b) = Flt (a - b)"
| "py_sub _ _ = NaN"

fun py_mul :: "pyfloat \<Rightarrow> pyfloat \<Rightarrow> pyfloat" where
  "py_mul (Flt a) (Flt b) = Flt (a * b)"
| "py_mul _ _ = NaN"

text \<open>
  \<open>py_quot\<close> is the quotient for a divisor known to be nonzero; \<open>py_truediv\<close> is
  Python's \<open>/\<close>, which raises on a zero divisor whatever the dividend is.
\<close>

fun py_quot :: "pyfloat \<Rightarrow> pyfloat \<Rightarrow> pyfloat" where
  "py_quot (Flt a) (Flt b) = Flt (a / b)"
| "py_quot _ _ = NaN"

definition py_truediv :: "pyfloat \<Rightarrow> pyfloat \<Rightarrow> py_error + pyfloat" where
  "py_truediv a b = (if b = Flt 0 then Inl ZeroDivisionError else Inr (py_quot a b))"

text \<open>
  Truth value of \<open>purchase_price\<close>, which is \<open>None\<close> or a float: \<open>None\<close> and
  zero are false, every other float (not-a-number included) is true.
\<close>

fun truthy :: "pyfloat option \<Rightarrow> bool" where
  "truthy None = False"
| "truthy (Some (Flt a)) = (a \<noteq> 0)"
| "truthy (Some NaN) = True"

section \<open>Signal helpers\<close>

text \<open>
  \<^verbatim>\<open>
  def dynamic_rsi_threshold(current_price, upper_band, lower_band):
      if current_price > upper_band:
          return 30
      elif current_price < lower_band:
          return 24
      else:
          return 27
  \<close>
\<close>

definition dynamic_rsi_threshold :: "pyfloat \<Rightarrow> pyfloat \<Rightarrow> pyfloat \<Rightarrow> int" where
  "dynamic_rsi_threshold current_price upper_band lower_band =
     (if py_gt current_price upper_band then 30
      else if py_lt current_price lower_band then 24
      else 27)"

text \<open>
  \<^verbatim>\<open>
  def should_sell_with_trailing_stop(purchase_price, current_price, profit_target, trailing_stop):
      target_price = purchase_price * (1 + profit_target / 100)
      trailing_price = current_price * (1 - trailing_stop / 100)
      return current_price >= target_price and trailing_price > purchase_price
  \<close>
  The divisor is the literal 100, so neither division can raise.
\<close>

definition should_sell_with_trailing_stop ::
  "pyfloat \<Rightarrow> pyfloat \<Rightarrow> pyfloat \<Rightarrow> pyfloat \<Rightarrow> bool" where
  "should_sell_with_trailing_stop purchase_price current_price profit_target trailing_stop =
     (let target_price = py_mul purchase_price (py_add (Flt 1) (py_quot profit_target (Flt 100)));
          trailing_price = py_mul current_price (py_sub (Flt 1) (py_quot trailing_stop (Flt 100)))
      in py_ge current_price target_price \<and> py_gt trailing_price purchase_price)"

section \<open>Text of a price: formatting and parsing\<close>

text \<open>
  Python's \<open>round\<close> and the \<open>.8f\<close> format both round to nearest, ties to even.
\<close>

definition round_half_even :: "real \<Rightarrow> int" where
  "round_half_even x =
     (let f = \<lfloor>x\<rfloor>; d = x - of_int f
      in if d < 1 / 2 then f else if d > 1 / 2 then f + 1 else if even f then f else f + 1)"

definition digit_char :: "nat \<Rightarrow> char" where
  "digit_char d = char_of (48 + d)"

fun digits_of :: "nat \<Rightarrow> string" where
  "digits_of n = (if n < 10 then [digit_char n] else digits_of (n div 10) @ [digit_char (n mod 10)])"

declare digits_of.simps [simp del]

fun pad_digits :: "nat \<Rightarrow> nat \<Rightarrow> string" where
  "pad_digits 0 n = []"
| "pad_digits (Suc k) n = pad_digits k (n div 10) @ [digit_char (n mod 10)]"

text \<open>
  \<open>f"{price:.8f}"\<close>: an optional minus sign, the integer digits, a point and exactly
  eight fraction digits; \<open>nan\<close> for not-a-number.
\<close>

fun format_8f :: "pyfloat \<Rightarrow> string" where
  "format_8f NaN = ''nan''"
| "format_8f (Flt x) =
     (let n = nat (round_half_even (\<bar>x\<bar> * 10 ^ 8))
      in (if x < 0 then ''-'' else []) @ digits_of (n div 10 ^ 8) @ ''.'' @ pad_digits 8 (n mod 10 ^ 8))"

definition is_space :: "char \<Rightarrow> bool" where
  "is_space c = (of_char c \<in> {9, 10, 11, 12, 13, 32 :: nat})"

definition strip :: "string \<Rightarrow> string" where
  "strip s = rev (dropWhile is_space (rev (dropWhile is_space s)))"

definition is_digit :: "char \<Rightarrow> bool" where
  "is_digit c = (48 \<le> (of_char c :: nat) \<and> (of_char c :: nat) \<le> 57)"

definition digit_val :: "char \<Rightarrow> nat" where
  "digit_val c = of_char c - 48"

definition nat_of_digits :: "string \<Rightarrow> nat" where
  "nat_of_digits s = foldl (\<lambda>a c. 10 * a + digit_val c) 0 s"

text \<open>
  \<open>float(text.strip())\<close> on the notations this program writes: a signed fixed-point
  numeral and \<open>nan\<close>. The other notations that \<open>float\<close> accepts (an exponent,
  \<open>inf\<close>, underscores between digits, other spellings of \<open>nan\<close>) never come out of
  \<open>write_purchase_price\<close>; the model answers \<open>ValueError\<close> for them, as it does for
  text that is no number at all.
\<close>

definition split_sign :: "string \<Rightarrow> bool \<times> string" where
  "split_sign t =
     (case t of
        [] \<Rightarrow> (False, [])
      | c # r \<Rightarrow> if c = CHR ''-'' then (True, r) else if c = CHR ''+'' then (False, r) else (False, t))"

definition signed :: "bool \<Rightarrow> real \<Rightarrow> pyfloat" where
  "signed neg v = Flt (if neg then - v else v)"

definition py_float :: "string \<Rightarrow> py_error + pyfloat" where
  "py_float s =
     (let t = strip s
      in if t = ''nan'' then Inr NaN
         else
           (let (neg, u) = split_sign t;
                ip = takeWhile is_digit u;
                rest = dropWhile is_digit u
            in case rest of
                 [] \<Rightarrow> if ip = [] then Inl ValueError else Inr (signed neg (of_nat (nat_of_digits ip)))
               | c # fp \<Rightarrow>
                   if c = CHR ''.'' \<and> list_all is_digit fp \<and> (ip \<noteq> [] \<or> fp \<noteq> [])
                   then Inr (signed neg (of_nat (nat_of_digits ip)
                                          + of_nat (nat_of_digits fp) / 10 ^ length fp))
                   else Inl ValueError))"

section \<open>The purchase-price files\<close>

text \<open>
  The file system is a map from file names to file contents.
  \<^verbatim>\<open>
  def write_purchase_price(symbol, price):
      with open(f"{symbol}_purchase_price.txt", "w") as file:
          file.write(f"{price:.8f}")

  def read_purchase_price(symbol):
      try:
          with open(f"{symbol}_purchase_price.txt", "r") as file:
              return float(file.read().strip())
      except FileNotFoundError:
          return None

  def clear_purchase_price(symbol):
      if os.path.exists(f"{symbol}_purchase_price.txt"):
          os.remove(f"{symbol}_purchase_price.txt")
  \<close>
\<close>

type_synonym files = "string \<rightharpoonup> string"

definition purchase_price_file :: "string \<Rightarrow> string" where
  "purchase_price_file symbol = symbol @ ''_purchase_price.txt''"

definition write_purchase_price :: "string \<Rightarrow> pyfloat \<Rightarrow> files \<Rightarrow> files" where
  "write_purchase_price symbol price fs = fs(purchase_price_file symbol \<mapsto> format_8f price)"

definition read_purchase_price :: "string \<Rightarrow> files \<Rightarrow> py_error + pyfloat option" where
  "read_purchase_price symbol fs =
     (case fs (purchase_price_file symbol) of
        None \<Rightarrow> Inr None
      | Some text \<Rightarrow> (case py_float text of Inl e \<Rightarrow> Inl e | Inr v \<Rightarrow> Inr (Some v)))"

definition clear_purchase_price :: "string \<Rightarrow> files \<Rightarrow> files" where
  "clear_purchase_price symbol fs =
     (if purchase_price_file symbol \<in> dom fs then fs(purchase_price_file symbol := None) else fs)"

section \<open>Indicators\<close>

text \<open>
  The indicators are computed by pandas. What the program relies on is modelled:
  \<^item> \<open>series.rolling(window).mean()\<close> and \<open>.std()\<close> give a series of the same length,
    whose entry at position \<open>i\<close> is not-a-number unless the \<open>window\<close> entries ending at
    \<open>i\<close> all exist and are numbers (the default \<open>min_periods\<close> is the window); \<open>std\<close> is
    the sample standard deviation (divisor \<open>window - 1\<close>);
  \<^item> arithmetic on series is element by element;
  \<^item> \<open>series.iloc[-1]\<close> is the last entry and raises \<open>IndexError\<close> on an empty series.
\<close>

fun finite_values :: "pyfloat list \<Rightarrow> real list option" where
  "finite_values [] = Some []"
| "finite_values (NaN # xs) = None"
| "finite_values (Flt x # xs) = (case finite_values xs of None \<Rightarrow> None | Some vs \<Rightarrow> Some (x # vs))"

definition window_mean :: "real list \<Rightarrow> real" where
  "window_mean vs = sum_list vs / of_nat (length vs)"

definition window_std :: "real list \<Rightarrow> pyfloat" where
  "window_std vs =
     (if length vs < 2 then NaN
      else Flt (sqrt (sum_list (map (\<lambda>v. (v - window_mean vs) ^ 2) vs) / of_nat (length vs - 1))))"

definition rolling :: "nat \<Rightarrow> (real list \<Rightarrow> pyfloat) \<Rightarrow> pyfloat list \<Rightarrow> pyfloat list" where
  "rolling window f xs =
     map (\<lambda>i. if Suc i < window then NaN
               else (case finite_values (take window (drop (Suc i - window) xs)) of
                       None \<Rightarrow> NaN
                     | Some vs \<Rightarrow> f vs))
         [0..<length xs]"

definition iloc_last :: "'a list \<Rightarrow> py_error + 'a" where
  "iloc_last xs = (if xs = [] then Inl IndexError else Inr (last xs))"

text \<open>
  \<^verbatim>\<open>
  def calculate_bollinger_bands(prices, window=20, std_dev=2):
      rolling_mean = prices.rolling(window=window).mean()
      rolling_std = prices.rolling(window=window).std()
      upper_band = rolling_mean + (rolling_std * std_dev)
      lower_band = rolling_mean - (rolling_std * std_dev)
      return upper_band.iloc[-1], lower_band.iloc[-1]
  \<close>
\<close>

definition calculate_bollinger_bands ::
  "pyfloat list \<Rightarrow> nat \<Rightarrow> pyfloat \<Rightarrow> py_error + pyfloat \<times> pyfloat" where
  "calculate_bollinger_bands prices window std_dev =
     (let rolling_mean = rolling window (\<lambda>vs. Flt (window_mean vs)) prices;
          rolling_std = rolling window window_std prices;
          upper_band = map2 py_add rolling_mean (map (\<lambda>s. py_mul s std_dev) rolling_std);
          lower_band = map2 py_sub rolling_mean (map (\<lambda>s. py_mul s std_dev) rolling_std)
      in case iloc_last upper_band of
           Inl e \<Rightarrow> Inl e
         | Inr u \<Rightarrow> (case iloc_last lower_band of Inl e \<Rightarrow> Inl e | Inr l \<Rightarrow> Inr (u, l)))"

text \<open>
  \<^verbatim>\<open>
  def calculate_rsi(prices, period):
      df = pd.DataFrame(prices, columns=["close"])
      df["RSI"] = ta.rsi(df["close"], length=period)
      return df["RSI"].iloc[-1]
  \<close>
  \<open>ta.rsi\<close> belongs to the pandas\_ta library and is a parameter \<open>ta_rsi\<close> here: it
  returns \<open>None\<close> or a series. Assigning \<open>None\<close> to a column fills it with \<open>None\<close>;
  assigning a series aligns it with the rows of the frame, a row with no entry getting
  not-a-number. Either way the column has one cell for each price.
\<close>

datatype pyval = PyNone | PyFloat pyfloat

type_synonym rsi_library = "pyfloat list \<Rightarrow> int \<Rightarrow> pyfloat list option"

definition assign_column :: "nat \<Rightarrow> pyfloat list option \<Rightarrow> pyval list" where
  "assign_column n v =
     (case v of
        None \<Rightarrow> replicate n PyNone
      | Some s \<Rightarrow> map (\<lambda>i. if i < length s then PyFloat (s ! i) else PyFloat NaN) [0..<n])"

definition calculate_rsi :: "rsi_library \<Rightarrow> pyfloat list \<Rightarrow> int \<Rightarrow> py_error + pyval" where
  "calculate_rsi ta_rsi prices period =
     iloc_last (assign_column (length prices) (ta_rsi prices period))"

section \<open>Orders and the per-symbol cycle\<close>

text \<open>
  What \<open>process_symbol\<close> does to the outside world is the sequence of its events: the
  market orders it submits and the lines it prints whose text is fixed (the lines that
  only report numbers are left out). The exchange is taken to answer every call: a
  failing network call is not modelled.
\<close>

datatype event =
    Print string
  | OrderMarketSell string pyfloat
  | OrderMarketBuy string pyfloat
  | ErrorProcessing string py_error

record config =
  RSI_PERIOD :: int
  TRAILING_STOP :: pyfloat
  PROFIT_TARGET :: pyfloat

record symbol_data =
  symbol :: string
  rounding :: string
  amount_usdt :: pyfloat

text \<open>
  The answers of the exchange during one call of \<open>process_symbol\<close>: the free balance
  that \<open>check_if_symbol_in_balance\<close> returns, the price of the first \<open>get_price\<close>, the
  closing prices of \<open>get_historical_klines\<close>, and the price that \<open>place_buy_order\<close>
  fetches again before buying.
\<close>

record market =
  free_balance :: pyfloat
  ticker_price :: pyfloat
  close_prices :: "pyfloat list"
  order_price :: pyfloat

text \<open>\<open>int(x)\<close> truncates towards zero, \<open>round(x)\<close> rounds half to even; both refuse not-a-number.\<close>

fun py_int :: "pyfloat \<Rightarrow> py_error + pyfloat" where
  "py_int NaN = Inl ValueError"
| "py_int (Flt x) = Inr (Flt (of_int (if x < 0 then \<lceil>x\<rceil> else \<lfloor>x\<rfloor>)))"

fun py_round :: "pyfloat \<Rightarrow> py_error + pyfloat" where
  "py_round NaN = Inl ValueError"
| "py_round (Flt x) = Inr (Flt (of_int (round_half_even x)))"

text \<open>
  \<^verbatim>\<open>
  def place_buy_order(symbol, amount_usdt, rounding):
      price = get_price(symbol)
      quantity = amount_usdt / price
      if rounding == "floor":
          quantity = int(quantity)
      elif rounding == "round":
          quantity = round(quantity)
      order = client.order_market_buy(symbol=symbol, quantity=quantity)
      write_purchase_price(symbol, price)
      return order
  \<close>
\<close>

definition place_buy_order ::
  "market \<Rightarrow> string \<Rightarrow> pyfloat \<Rightarrow> string \<Rightarrow> files \<Rightarrow> py_error + event list \<times> files" where
  "place_buy_order mkt tsym amount rnd fs =
     (let price = order_price mkt
      in case py_truediv amount price of
           Inl e \<Rightarrow> Inl e
         | Inr q \<Rightarrow>
             (case (if rnd = ''floor'' then py_int q
                    else if rnd = ''round'' then py_round q
                    else Inr q) of
                Inl e \<Rightarrow> Inl e
              | Inr quantity \<Rightarrow>
                  Inr ([OrderMarketBuy tsym quantity], write_purchase_price tsym price fs)))"

text \<open>
  \<^verbatim>\<open>
  def place_sell_order(symbol, quantity):
      order = client.order_market_sell(symbol=symbol, quantity=quantity)
      return order
  \<close>
\<close>

definition place_sell_order :: "string \<Rightarrow> pyfloat \<Rightarrow> event list" where
  "place_sell_order tsym quantity = [OrderMarketSell tsym quantity]"

text \<open>
  Line 141 of \<open>process_symbol\<close>:
  \<^verbatim>\<open>
  profit_percentage = ((current_price - purchase_price) / purchase_price) * 100 if purchase_price else 0
  \<close>
\<close>

definition profit_percentage :: "pyfloat option \<Rightarrow> pyfloat \<Rightarrow> py_error + pyfloat" where
  "profit_percentage purchase_price current_price =
     (if truthy purchase_price
      then (case py_truediv (py_sub current_price (the purchase_price)) (the purchase_price) of
              Inl e \<Rightarrow> Inl e
            | Inr q \<Rightarrow> Inr (py_mul q (Flt 100)))
      else Inr (Flt 0))"

text \<open>
  Lines 139 to 155 of \<open>process_symbol\<close>, the exit checks:
  \<^verbatim>\<open>
  if balance_in_usd > 1:
      profit_percentage = ...
      if purchase_price and profit_percentage >= PROFIT_TARGET:
          print(f"Target profit reached! Selling {symbol}.")
          place_sell_order(symbol, balance)
          clear_purchase_price(symbol)
      elif purchase_price and should_sell_with_trailing_stop(purchase_price, current_price, PROFIT_TARGET, TRAILING_STOP):
          print(f"Trailing stop triggered! Selling {symbol}.")
          place_sell_order(symbol, balance)
          clear_purchase_price(symbol)
      else:
          print("Profit target not reached yet.")
  else:
      print("Balance worth less than $1. Skipping profit check.")
  \<close>
\<close>

definition exit_checks ::
  "config \<Rightarrow> string \<Rightarrow> pyfloat \<Rightarrow> pyfloat \<Rightarrow> pyfloat option \<Rightarrow> pyfloat \<Rightarrow> files
     \<Rightarrow> py_error + event list \<times> files" where
  "exit_checks cfg tsym balance current_price purchase_price balance_in_usd fs =
     (if py_gt balance_in_usd (Flt 1) then
        (case profit_percentage purchase_price current_price of
           Inl e \<Rightarrow> Inl e
         | Inr profit \<Rightarrow>
             if truthy purchase_price \<and> py_ge profit (PROFIT_TARGET cfg) then
               Inr (Print (''Target profit reached! Selling '' @ tsym @ ''.'')
                      # place_sell_order tsym balance,
                    clear_purchase_price tsym fs)
             else if truthy purchase_price
                     \<and> should_sell_with_trailing_stop (the purchase_price) current_price
                          (PROFIT_TARGET cfg) (TRAILING_STOP cfg) then
               Inr (Print (''Trailing stop triggered! Selling '' @ tsym @ ''.'')
                      # place_sell_order tsym balance,
                    clear_purchase_price tsym fs)
             else Inr ([Print ''Profit target not reached yet.''], fs))
      else Inr ([Print ''Balance worth less than $1. Skipping profit check.''], fs))"

text \<open>
  Lines 157 to 168 of \<open>process_symbol\<close>, the entry check. The events printed or
  submitted before an exception stay; the exception is returned with them.
  \<^verbatim>\<open>
  prices = get_historical_klines(symbol, Client.KLINE_INTERVAL_5MINUTE)
  upper_band, lower_band = calculate_bollinger_bands(pd.Series(prices))
  rsi_threshold = dynamic_rsi_threshold(current_price, upper_band, lower_band)
  rsi = calculate_rsi(prices, RSI_PERIOD)
  print(f"RSI: {rsi:.2f} (Dynamic Buy Signal: {rsi < rsi_threshold}, Threshold: {rsi_threshold})")
  if rsi < rsi_threshold and balance_in_usd < 1:
      print(f"Conditions met! Buying {symbol}.")
      place_buy_order(symbol, amount_usdt, rounding)
  \<close>
  Formatting \<open>None\<close> with \<open>.2f\<close> raises \<open>TypeError\<close>.
\<close>

definition entry_checks ::
  "config \<Rightarrow> rsi_library \<Rightarrow> market \<Rightarrow> symbol_data \<Rightarrow> pyfloat \<Rightarrow> pyfloat \<Rightarrow> files
     \<Rightarrow> event list \<times> (py_error + files)" where
  "entry_checks cfg ta_rsi mkt sd current_price balance_in_usd fs =
     (case calculate_bollinger_bands (close_prices mkt) 20 (Flt 2) of
        Inl e \<Rightarrow> ([], Inl e)
      | Inr (upper_band, lower_band) \<Rightarrow>
          (let rsi_threshold = dynamic_rsi_threshold current_price upper_band lower_band
           in case calculate_rsi ta_rsi (close_prices mkt) (RSI_PERIOD cfg) of
                Inl e \<Rightarrow> ([], Inl e)
              | Inr PyNone \<Rightarrow> ([], Inl TypeError)
              | Inr (PyFloat rsi) \<Rightarrow>
                  if py_lt rsi (Flt (of_int rsi_threshold)) \<and> py_lt balance_in_usd (Flt 1) then
                    (case place_buy_order mkt (symbol sd) (amount_usdt sd) (rounding sd) fs of
                       Inl e \<Rightarrow> ([Print (''Conditions met! Buying '' @ symbol sd @ ''.'')], Inl e)
                     | Inr (evs, fs') \<Rightarrow>
                         (Print (''Conditions met! Buying '' @ symbol sd @ ''.'') # evs, Inr fs'))
                  else ([], Inr fs)))"

text \<open>
  \<open>process_symbol\<close>: the whole body runs inside \<open>try\<close>; an exception ends the body,
  is reported on the console and leaves the files as they were when it was raised.
  The result is the events of the call, in order, and the files after it.
\<close>

definition process_symbol ::
  "config \<Rightarrow> rsi_library \<Rightarrow> market \<Rightarrow> symbol_data \<Rightarrow> files \<Rightarrow> event list \<times> files" where
  "process_symbol cfg ta_rsi mkt sd fs =
     (let balance = free_balance mkt;
          current_price = ticker_price mkt
      in case read_purchase_price (symbol sd) fs of
           Inl e \<Rightarrow> ([ErrorProcessing (symbol sd) e], fs)
         | Inr purchase_price \<Rightarrow>
             (let balance_in_usd = py_mul balance current_price
              in case exit_checks cfg (symbol sd) balance current_price purchase_price
                        balance_in_usd fs of
                   Inl e \<Rightarrow> ([ErrorProcessing (symbol sd) e], fs)
                 | Inr (evs1, fs1) \<Rightarrow>
                     (case entry_checks cfg ta_rsi mkt sd current_price balance_in_usd fs1 of
                        (evs2, Inl e) \<Rightarrow> (evs1 @ evs2 @ [ErrorProcessing (symbol sd) e], fs1)
                      | (evs2, Inr fs2) \<Rightarrow> (evs1 @ evs2, fs2))))"

text \<open>The orders among the events of a call.\<close>

fun is_sell :: "event \<Rightarrow> bool" where
  "is_sell (OrderMarketSell s q) = True"
| "is_sell _ = False"

fun is_buy :: "event \<Rightarrow> bool" where
  "is_buy (OrderMarketBuy s q) = True"
| "is_buy _ = False"

definition orders :: "event list \<Rightarrow> event list" where
  "orders evs = filter (\<lambda>e. is_sell e \<or> is_buy e) evs"

section \<open>The profit percentage as the specification words it\<close>

text \<open>
  The specification's \<open>profitPercentage\<close>: 0 for an absent purchase price, and
  otherwise \<open>(current_price - purchase_price) / purchase_price * 100\<close>, with Python's
  division. It is compared with line 141 of the source, \<open>profit_percentage\<close>.
\<close>

definition spec_profitPercentage :: "pyfloat option \<Rightarrow> pyfloat \<Rightarrow> py_error + pyfloat" where
  "spec_profitPercentage purchase_price current_price =
     (case purchase_price of
        None \<Rightarrow> Inr (Flt 0)
      | Some p \<Rightarrow>
          (case py_truediv (py_sub current_price p) p of
             Inl e \<Rightarrow> Inl e
           | Inr q \<Rightarrow> Inr (py_mul q (Flt 100))))"

section \<open>Properties of the comparisons and of the arithmetic\<close>

lemma py_cmp_NaN [simp]:
  "\<not> py_lt a NaN" "\<not> py_gt a NaN" "\<not> py_ge a NaN" "\<not> py_le a NaN" "\<not> py_eq a NaN"
  by (cases a; simp)+

lemma py_arith_NaN [simp]:
  "py_add a NaN = NaN" "py_sub a NaN = NaN" "py_mul a NaN = NaN" "py_quot a NaN = NaN"
  by (cases a; simp)+

section \<open>The dynamic threshold\<close>

text \<open>
  Claim C2, as the code has it. \<open>dynamic_rsi_threshold\<close> returns one of 24, 27 and 30:
  30 when the price is above the upper band, else 24 when it is below the lower band,
  else 27. A price equal to a band gives 27 when the bands are ordered,
  \<open>lower_band \<le> upper_band\<close>. The order of the bands is needed: the price 5 with the
  upper band 5 and the lower band 10 gives 24.
\<close>

theorem dynamic_rsi_threshold_cases:
  "dynamic_rsi_threshold cp ub lb \<in> {24, 27, 30}
   \<and> dynamic_rsi_threshold cp ub lb
       = (if py_gt cp ub then 30 else if py_lt cp lb then 24 else 27)
   \<and> (py_le lb ub \<longrightarrow> py_eq cp ub \<or> py_eq cp lb \<longrightarrow> dynamic_rsi_threshold cp ub lb = 27)"
proof -
  have "dynamic_rsi_threshold cp ub lb = 27" if "py_le lb ub" "py_eq cp ub \<or> py_eq cp lb"
    using that by (cases cp; cases ub; cases lb) (auto simp: dynamic_rsi_threshold_def)
  then show ?thesis
    by (simp add: dynamic_rsi_threshold_def)
qed

theorem dynamic_rsi_threshold_cases_witness:
  "py_le (Flt 3) (Flt 5) \<and> py_eq (Flt 5) (Flt 5)
   \<and> dynamic_rsi_threshold (Flt 5) (Flt 5) (Flt 3) = 27"
  using dynamic_rsi_threshold_cases [of "Flt 5" "Flt 5" "Flt 3"] by simp

theorem dynamic_rsi_threshold_boundary_counterexample:
  "py_eq (Flt 5) (Flt 5) \<and> dynamic_rsi_threshold (Flt 5) (Flt 5) (Flt 10) \<noteq> 27"
  by (simp add: dynamic_rsi_threshold_def)

section \<open>The trailing stop\<close>

text \<open>
  Claim C3. \<open>should_sell_with_trailing_stop\<close> is true exactly when the current price
  has reached \<open>purchase_price * (1 + profit_target / 100)\<close> and
  \<open>current_price * (1 - trailing_stop / 100)\<close> is above the purchase price. It is false
  when an argument is not a number, and false below the target price whatever the
  trailing stop is.
\<close>

theorem should_sell_with_trailing_stop_iff:
  "(should_sell_with_trailing_stop (Flt pp) (Flt cp) (Flt pt) (Flt ts)
      \<longleftrightarrow> cp \<ge> pp * (1 + pt / 100) \<and> cp * (1 - ts / 100) > pp)
   \<and> (a = NaN \<or> b = NaN \<or> c = NaN \<or> d = NaN \<longrightarrow> \<not> should_sell_with_trailing_stop a b c d)
   \<and> (cp < pp * (1 + pt / 100) \<longrightarrow> \<not> should_sell_with_trailing_stop (Flt pp) (Flt cp) (Flt pt) d)"
proof -
  have nan: "\<not> should_sell_with_trailing_stop a b c d"
    if "a = NaN \<or> b = NaN \<or> c = NaN \<or> d = NaN"
    using that by (cases a; cases b; cases c; cases d) (auto simp: should_sell_with_trailing_stop_def)
  have low: "\<not> should_sell_with_trailing_stop (Flt pp) (Flt cp) (Flt pt) d"
    if "cp < pp * (1 + pt / 100)"
    using that by (cases d) (auto simp: should_sell_with_trailing_stop_def)
  show ?thesis
    using nan low by (simp add: should_sell_with_trailing_stop_def)
qed

theorem should_sell_with_trailing_stop_iff_witness:
  "should_sell_with_trailing_stop (Flt 100) (Flt 102) (Flt 2) (Flt 1)
   \<and> (101::real) < 100 * (1 + 2 / 100)
   \<and> \<not> should_sell_with_trailing_stop (Flt 100) (Flt 101) (Flt 2) (Flt 1)
   \<and> \<not> should_sell_with_trailing_stop NaN (Flt 102) (Flt 2) (Flt 1)"
  using should_sell_with_trailing_stop_iff [of 100 102 2 1 NaN "Flt 102" "Flt 2" "Flt 1"]
        should_sell_with_trailing_stop_iff [of 100 101 2 1 NaN "Flt 102" "Flt 2" "Flt 1"]
  by simp

text \<open>
  Claim C4. With a positive purchase price and a profit target and a trailing stop that
  are not negative, a true \<open>should_sell_with_trailing_stop\<close> means that the current
  price is above the purchase price: the check never sells at or below cost.
\<close>

theorem trailing_stop_never_below_cost:
  assumes "py_gt purchase_price (Flt 0)"
      and "py_ge profit_target (Flt 0)"
      and "py_ge trailing_stop (Flt 0)"
      and "should_sell_with_trailing_stop purchase_price current_price profit_target trailing_stop"
  shows "py_gt current_price purchase_price"
proof -
  obtain pp pt ts where f: "purchase_price = Flt pp" "profit_target = Flt pt" "trailing_stop = Flt ts"
    using assms(1-3) by (cases purchase_price; cases profit_target; cases trailing_stop) auto
  obtain cp where c: "current_price = Flt cp"
    using assms(4) f by (cases current_price) (auto simp: should_sell_with_trailing_stop_def)
  have pos: "0 < pp" "0 \<le> pt" "0 \<le> ts" using assms(1-3) f by auto
  have ge: "pp * (1 + pt / 100) \<le> cp" and gt: "pp < cp * (1 - ts / 100)"
    using assms(4) f c by (auto simp: should_sell_with_trailing_stop_def)
  have "pp * 1 \<le> pp * (1 + pt / 100)"
    using pos by (intro mult_left_mono) auto
  then have cp_ge: "pp \<le> cp" using ge by simp
  then have "0 \<le> cp" using pos by simp
  then have "cp * (1 - ts / 100) \<le> cp * 1"
    using pos by (intro mult_left_mono) auto
  then have "pp < cp" using gt by simp
  then show ?thesis using f c by simp
qed

theorem trailing_stop_never_below_cost_witness:
  "py_gt (Flt 100) (Flt 0) \<and> py_ge (Flt 2) (Flt 0) \<and> py_ge (Flt 1) (Flt 0)
   \<and> should_sell_with_trailing_stop (Flt 100) (Flt 102) (Flt 2) (Flt 1)
   \<and> py_gt (Flt 102) (Flt 100)"
proof -
  have h: "should_sell_with_trailing_stop (Flt 100) (Flt 102) (Flt 2) (Flt 1)"
    by (simp add: should_sell_with_trailing_stop_def)
  have "py_gt (Flt 102) (Flt 100)"
    using trailing_stop_never_below_cost [of "Flt 100" "Flt 2" "Flt 1" "Flt 102"] h by simp
  then show ?thesis using h by simp
qed

section \<open>The per-symbol cycle\<close>

lemma profit_percentage_truthy:
  "truthy (Some p) \<Longrightarrow>
     profit_percentage (Some p) x = Inr (py_mul (py_quot (py_sub x p) p) (Flt 100))"
  by (cases p) (auto simp: profit_percentage_def py_truediv_def)

lemma profit_percentage_falsy:
  "\<not> truthy pp \<Longrightarrow> profit_percentage pp x = Inr (Flt 0)"
  by (simp add: profit_percentage_def)

lemma profit_percentage_total: "\<exists>v. profit_percentage pp x = Inr v"
proof (cases "truthy pp")
  case True
  then obtain p where "pp = Some p" by (cases pp) auto
  with True show ?thesis by (auto simp: profit_percentage_truthy)
next
  case False
  then show ?thesis by (simp add: profit_percentage_falsy)
qed

lemma py_gt_not_lt: "py_gt x y \<Longrightarrow> \<not> py_lt x y"
  by (cases x; cases y) auto

lemma orders_simps [simp]:
  "orders [] = []"
  "orders (Print s # evs) = orders evs"
  "orders (ErrorProcessing s e # evs) = orders evs"
  "orders (OrderMarketSell s q # evs) = OrderMarketSell s q # orders evs"
  "orders (OrderMarketBuy s q # evs) = OrderMarketBuy s q # orders evs"
  "orders (xs @ ys) = orders xs @ orders ys"
  by (simp_all add: orders_def)

text \<open>The exit checks never raise; they sell at most once, and only above the dust value.\<close>

lemma exit_checks_falsy:
  "\<not> truthy pp \<Longrightarrow>
     exit_checks cfg s bal cp pp biu fs =
       Inr ([Print (if py_gt biu (Flt 1) then ''Profit target not reached yet.''
                    else ''Balance worth less than $1. Skipping profit check.'')], fs)"
  by (simp add: exit_checks_def profit_percentage_falsy)

lemma exit_checks_low:
  "\<not> py_gt biu (Flt 1) \<Longrightarrow>
     exit_checks cfg s bal cp pp biu fs =
       Inr ([Print ''Balance worth less than $1. Skipping profit check.''], fs)"
  by (simp add: exit_checks_def)

lemma exit_checks_truthy:
  assumes "py_gt biu (Flt 1)" and "truthy (Some p)"
  shows "exit_checks cfg s bal cp (Some p) biu fs =
     (if py_ge (py_mul (py_quot (py_sub cp p) p) (Flt 100)) (PROFIT_TARGET cfg) then
        Inr ([Print (''Target profit reached! Selling '' @ s @ ''.''), OrderMarketSell s bal],
             clear_purchase_price s fs)
      else if should_sell_with_trailing_stop p cp (PROFIT_TARGET cfg) (TRAILING_STOP cfg) then
        Inr ([Print (''Trailing stop triggered! Selling '' @ s @ ''.''), OrderMarketSell s bal],
             clear_purchase_price s fs)
      else Inr ([Print ''Profit target not reached yet.''], fs))"
  using assms by (simp add: exit_checks_def profit_percentage_truthy place_sell_order_def)

lemma exit_checks_orders:
  "\<exists>evs fs'. exit_checks cfg s bal cp pp biu fs = Inr (evs, fs')
     \<and> (orders evs = [] \<or> (py_gt biu (Flt 1) \<and> truthy pp \<and> orders evs = [OrderMarketSell s bal]))"
proof (cases "py_gt biu (Flt 1) \<and> truthy pp")
  case True
  then obtain p where "pp = Some p" by (cases pp) auto
  with True show ?thesis by (simp add: exit_checks_truthy)
next
  case False
  then show ?thesis
    by (cases "truthy pp") (auto simp: exit_checks_falsy exit_checks_low)
qed

lemma place_buy_order_orders:
  "place_buy_order mkt s a r fs = Inr (evs, fs') \<Longrightarrow> \<exists>q. evs = [OrderMarketBuy s q]"
  by (auto simp: place_buy_order_def Let_def split: sum.splits if_splits)

lemma entry_checks_orders:
  "entry_checks cfg ta_rsi mkt sd cp biu fs = (evs, r) \<Longrightarrow>
     orders evs = [] \<or> (py_lt biu (Flt 1) \<and> (\<exists>q. orders evs = [OrderMarketBuy (symbol sd) q]))"
  by (auto simp: entry_checks_def Let_def split: sum.splits pyval.splits if_splits prod.splits
           dest!: place_buy_order_orders)

lemma entry_checks_held:
  "\<not> py_lt biu (Flt 1) \<Longrightarrow> orders (fst (entry_checks cfg ta_rsi mkt sd cp biu fs)) = []"
  using entry_checks_orders [of cfg ta_rsi mkt sd cp biu fs]
  by (cases "entry_checks cfg ta_rsi mkt sd cp biu fs") auto

lemma process_symbol_orders:
  assumes "read_purchase_price (symbol sd) fs = Inr pp"
      and "exit_checks cfg (symbol sd) (free_balance mkt) (ticker_price mkt) pp
             (py_mul (free_balance mkt) (ticker_price mkt)) fs = Inr (evs1, fs1)"
  shows "orders (fst (process_symbol cfg ta_rsi mkt sd fs)) =
           orders evs1 @ orders (fst (entry_checks cfg ta_rsi mkt sd (ticker_price mkt)
                                        (py_mul (free_balance mkt) (ticker_price mkt)) fs1))"
  using assms
  by (auto simp: process_symbol_def Let_def split: sum.splits prod.splits)

lemma process_symbol_read_error:
  "read_purchase_price (symbol sd) fs = Inl e \<Longrightarrow>
     fst (process_symbol cfg ta_rsi mkt sd fs) = [ErrorProcessing (symbol sd) e]"
  by (simp add: process_symbol_def)

text \<open>
  Claim C6. One call of \<open>process_symbol\<close> submits at most one order: never a sell and a
  buy together. A sell is only submitted when the balance value computed at the start of
  the call is above 1, a buy only when that same value is below 1.
\<close>

theorem one_order_per_cycle:
  "length (orders (fst (process_symbol cfg ta_rsi mkt sd fs))) \<le> 1
   \<and> \<not> ((\<exists>e \<in> set (fst (process_symbol cfg ta_rsi mkt sd fs)). is_sell e)
        \<and> (\<exists>e \<in> set (fst (process_symbol cfg ta_rsi mkt sd fs)). is_buy e))
   \<and> ((\<exists>e \<in> set (fst (process_symbol cfg ta_rsi mkt sd fs)). is_sell e)
        \<longrightarrow> py_gt (py_mul (free_balance mkt) (ticker_price mkt)) (Flt 1))
   \<and> ((\<exists>e \<in> set (fst (process_symbol cfg ta_rsi mkt sd fs)). is_buy e)
        \<longrightarrow> py_lt (py_mul (free_balance mkt) (ticker_price mkt)) (Flt 1))"
proof -
  let ?biu = "py_mul (free_balance mkt) (ticker_price mkt)"
  let ?evs = "fst (process_symbol cfg ta_rsi mkt sd fs)"
  have sell_iff: "(\<exists>e \<in> set evs. is_sell e) \<longleftrightarrow> (\<exists>e \<in> set (orders evs). is_sell e)" for evs
    by (auto simp: orders_def)
  have buy_iff: "(\<exists>e \<in> set evs. is_buy e) \<longleftrightarrow> (\<exists>e \<in> set (orders evs). is_buy e)" for evs
    by (auto simp: orders_def)
  have shape: "orders ?evs = []
      \<or> (py_gt ?biu (Flt 1) \<and> orders ?evs = [OrderMarketSell (symbol sd) (free_balance mkt)])
      \<or> (py_lt ?biu (Flt 1) \<and> (\<exists>q. orders ?evs = [OrderMarketBuy (symbol sd) q]))"
  proof (cases "read_purchase_price (symbol sd) fs")
    case (Inl e)
    then show ?thesis by (simp add: process_symbol_read_error)
  next
    case (Inr pp)
    obtain evs1 fs1 where ex: "exit_checks cfg (symbol sd) (free_balance mkt) (ticker_price mkt) pp
             ?biu fs = Inr (evs1, fs1)"
      and o1: "orders evs1 = [] \<or> (py_gt ?biu (Flt 1) \<and> truthy pp
                 \<and> orders evs1 = [OrderMarketSell (symbol sd) (free_balance mkt)])"
      using exit_checks_orders [of cfg "symbol sd" "free_balance mkt" "ticker_price mkt" pp ?biu fs]
      by blast
    let ?en = "entry_checks cfg ta_rsi mkt sd (ticker_price mkt) ?biu fs1"
    have o2: "orders (fst ?en) = []
        \<or> (py_lt ?biu (Flt 1) \<and> (\<exists>q. orders (fst ?en) = [OrderMarketBuy (symbol sd) q]))"
      using entry_checks_orders [of cfg ta_rsi mkt sd "ticker_price mkt" ?biu fs1]
      by (cases ?en) auto
    have eq: "orders ?evs = orders evs1 @ orders (fst ?en)"
      using process_symbol_orders [OF Inr ex] .
    show ?thesis
      using o1 o2 py_gt_not_lt [of ?biu "Flt 1"] unfolding eq by auto
  qed
  then show ?thesis
    unfolding sell_iff [of ?evs] buy_iff [of ?evs]
    using py_gt_not_lt [of ?biu "Flt 1"] by auto
qed

theorem one_order_per_cycle_witness:
  "(\<exists>e \<in> set (fst (process_symbol \<lparr>RSI_PERIOD = 14, TRAILING_STOP = Flt 1, PROFIT_TARGET = Flt 2\<rparr>
          (\<lambda>ps n. None)
          \<lparr>free_balance = Flt 2, ticker_price = Flt 103, close_prices = [Flt 100],
            order_price = Flt 103\<rparr>
          \<lparr>symbol = ''ETHUSDT'', rounding = ''floor'', amount_usdt = Flt 50\<rparr>
          [''ETHUSDT_purchase_price.txt'' \<mapsto> ''100.00000000''])). is_sell e)
   \<and> py_gt (py_mul (Flt 2) (Flt 103)) (Flt 1)
   \<and> \<not> (\<exists>e \<in> set (fst (process_symbol \<lparr>RSI_PERIOD = 14, TRAILING_STOP = Flt 1, PROFIT_TARGET = Flt 2\<rparr>
          (\<lambda>ps n. None)
          \<lparr>free_balance = Flt 2, ticker_price = Flt 103, close_prices = [Flt 100],
            order_price = Flt 103\<rparr>
          \<lparr>symbol = ''ETHUSDT'', rounding = ''floor'', amount_usdt = Flt 50\<rparr>
          [''ETHUSDT_purchase_price.txt'' \<mapsto> ''100.00000000''])). is_buy e)"
proof -
  let ?fs = "[''ETHUSDT_purchase_price.txt'' \<mapsto> ''100.00000000'']"
  let ?mkt = "\<lparr>free_balance = Flt 2, ticker_price = Flt 103, close_prices = [Flt 100],
            order_price = Flt 103\<rparr>"
  let ?sd = "\<lparr>symbol = ''ETHUSDT'', rounding = ''floor'', amount_usdt = Flt 50\<rparr>"
  let ?cfg = "\<lparr>RSI_PERIOD = 14, TRAILING_STOP = Flt 1, PROFIT_TARGET = Flt 2\<rparr>"
  let ?lib = "\<lambda>(ps :: pyfloat list) (n :: int). (None :: pyfloat list option)"
  have rd: "read_purchase_price ''ETHUSDT'' ?fs = Inr (Some (Flt 100))"
    by (simp add: read_purchase_price_def purchase_price_file_def py_float_def strip_def
        is_space_def split_sign_def is_digit_def signed_def nat_of_digits_def digit_val_def)
  have bb: "calculate_bollinger_bands [Flt 100] 20 (Flt 2) = Inr (NaN, NaN)"
    by (simp add: calculate_bollinger_bands_def rolling_def iloc_last_def)
  have rsi: "calculate_rsi ?lib [Flt 100] 14 = Inr PyNone"
    by (simp add: calculate_rsi_def assign_column_def iloc_last_def)
  have evs: "fst (process_symbol ?cfg ?lib ?mkt ?sd ?fs)
      = [Print ''Target profit reached! Selling ETHUSDT.'', OrderMarketSell ''ETHUSDT'' (Flt 2),
         ErrorProcessing ''ETHUSDT'' TypeError]"
    by (simp add: process_symbol_def rd bb rsi exit_checks_def entry_checks_def
        profit_percentage_def py_truediv_def place_sell_order_def)
  have sell: "\<exists>e \<in> set (fst (process_symbol ?cfg ?lib ?mkt ?sd ?fs)). is_sell e"
    unfolding evs by simp
  from one_order_per_cycle [of ?cfg ?lib ?mkt ?sd ?fs] sell
  have "py_gt (py_mul (free_balance ?mkt) (ticker_price ?mkt)) (Flt 1)
      \<and> \<not> (\<exists>e \<in> set (fst (process_symbol ?cfg ?lib ?mkt ?sd ?fs)). is_buy e)"
    by blast
  then show ?thesis using sell by simp
qed

lemma entry_checks_held_full:
  "\<not> py_lt biu (Flt 1) \<Longrightarrow> entry_checks cfg ta_rsi mkt sd cp biu fs = (evs, r) \<Longrightarrow>
     evs = [] \<and> (r = Inr fs \<or> (\<exists>e. r = Inl e))"
  by (auto simp: entry_checks_def Let_def split: sum.splits pyval.splits if_splits prod.splits)

lemma process_symbol_held:
  assumes "read_purchase_price (symbol sd) fs = Inr pp"
      and "exit_checks cfg (symbol sd) (free_balance mkt) (ticker_price mkt) pp
             (py_mul (free_balance mkt) (ticker_price mkt)) fs = Inr (evs1, fs1)"
      and "\<not> py_lt (py_mul (free_balance mkt) (ticker_price mkt)) (Flt 1)"
  shows "\<exists>rest. fst (process_symbol cfg ta_rsi mkt sd fs) = evs1 @ rest \<and> orders rest = []
           \<and> snd (process_symbol cfg ta_rsi mkt sd fs) = fs1"
proof -
  let ?biu = "py_mul (free_balance mkt) (ticker_price mkt)"
  obtain evs2 r where en: "entry_checks cfg ta_rsi mkt sd (ticker_price mkt) ?biu fs1 = (evs2, r)"
    by (cases "entry_checks cfg ta_rsi mkt sd (ticker_price mkt) ?biu fs1")
  from entry_checks_held_full [OF assms(3) en]
  have "evs2 = []" and "r = Inr fs1 \<or> (\<exists>e. r = Inl e)" by auto
  then show ?thesis
    using assms(1,2) en by (auto simp: process_symbol_def)
qed

text \<open>
  Claim C1, as the code has it. When the balance is worth more than 1 and the stored
  purchase price is present and not zero, \<open>process_symbol\<close> sells the whole free balance
  as soon as one exit check holds: the profit target is checked first and announced as
  such; the trailing stop is checked only when the profit target is not reached. Nothing
  else is ordered in that call and the purchase-price file is cleared.
  At a balance value of exactly 1 and at a stored purchase price of 0.0 nothing is sold.
\<close>

theorem held_position_is_sold:
  assumes rd: "read_purchase_price (symbol sd) fs = Inr (Some p)"
      and tr: "truthy (Some p)"
      and held: "py_gt (py_mul (free_balance mkt) (ticker_price mkt)) (Flt 1)"
      and profit: "profit_percentage (Some p) (ticker_price mkt) = Inr profit"
  shows "(py_ge profit (PROFIT_TARGET cfg) \<longrightarrow>
            (\<exists>rest. fst (process_symbol cfg ta_rsi mkt sd fs)
                      = [Print (''Target profit reached! Selling '' @ symbol sd @ ''.''),
                         OrderMarketSell (symbol sd) (free_balance mkt)] @ rest
                    \<and> orders rest = []))
       \<and> (\<not> py_ge profit (PROFIT_TARGET cfg)
            \<and> should_sell_with_trailing_stop p (ticker_price mkt) (PROFIT_TARGET cfg) (TRAILING_STOP cfg)
          \<longrightarrow> (\<exists>rest. fst (process_symbol cfg ta_rsi mkt sd fs)
                      = [Print (''Trailing stop triggered! Selling '' @ symbol sd @ ''.''),
                         OrderMarketSell (symbol sd) (free_balance mkt)] @ rest
                    \<and> orders rest = []))
       \<and> (py_ge profit (PROFIT_TARGET cfg)
            \<or> should_sell_with_trailing_stop p (ticker_price mkt) (PROFIT_TARGET cfg) (TRAILING_STOP cfg)
          \<longrightarrow> orders (fst (process_symbol cfg ta_rsi mkt sd fs))
                 = [OrderMarketSell (symbol sd) (free_balance mkt)]
              \<and> snd (process_symbol cfg ta_rsi mkt sd fs) = clear_purchase_price (symbol sd) fs)"
proof -
  let ?biu = "py_mul (free_balance mkt) (ticker_price mkt)"
  let ?ex = "exit_checks cfg (symbol sd) (free_balance mkt) (ticker_price mkt) (Some p) ?biu fs"
  have pr: "profit = py_mul (py_quot (py_sub (ticker_price mkt) p) p) (Flt 100)"
    using profit tr by (simp add: profit_percentage_truthy)
  have nlt: "\<not> py_lt ?biu (Flt 1)" using held by (rule py_gt_not_lt)
  obtain evs1 fs1 where ex: "?ex = Inr (evs1, fs1)"
    using exit_checks_orders [of cfg "symbol sd" "free_balance mkt" "ticker_price mkt" "Some p" ?biu fs]
    by blast
  obtain rest where ps: "fst (process_symbol cfg ta_rsi mkt sd fs) = evs1 @ rest"
      "orders rest = []" "snd (process_symbol cfg ta_rsi mkt sd fs) = fs1"
    using process_symbol_held [OF rd ex nlt] by blast
  have sh: "?ex =
     (if py_ge profit (PROFIT_TARGET cfg) then
        Inr ([Print (''Target profit reached! Selling '' @ symbol sd @ ''.''),
              OrderMarketSell (symbol sd) (free_balance mkt)],
             clear_purchase_price (symbol sd) fs)
      else if should_sell_with_trailing_stop p (ticker_price mkt) (PROFIT_TARGET cfg) (TRAILING_STOP cfg) then
        Inr ([Print (''Trailing stop triggered! Selling '' @ symbol sd @ ''.''),
              OrderMarketSell (symbol sd) (free_balance mkt)],
             clear_purchase_price (symbol sd) fs)
      else Inr ([Print ''Profit target not reached yet.''], fs))"
    unfolding pr by (rule exit_checks_truthy [OF held tr])
  show ?thesis
    using sh ex ps by (auto split: if_splits)
qed

theorem held_position_is_sold_witness:
  "read_purchase_price ''ETHUSDT'' [''ETHUSDT_purchase_price.txt'' \<mapsto> ''100.00000000'']
     = Inr (Some (Flt 100))
   \<and> truthy (Some (Flt 100))
   \<and> py_gt (py_mul (Flt 2) (Flt 103)) (Flt 1)
   \<and> profit_percentage (Some (Flt 100)) (Flt 103) = Inr (Flt 3)
   \<and> py_ge (Flt 3) (Flt 2)
   \<and> orders (fst (process_symbol \<lparr>RSI_PERIOD = 14, TRAILING_STOP = Flt 1, PROFIT_TARGET = Flt 2\<rparr>
          (\<lambda>ps n. None)
          \<lparr>free_balance = Flt 2, ticker_price = Flt 103, close_prices = [Flt 100],
            order_price = Flt 103\<rparr>
          \<lparr>symbol = ''ETHUSDT'', rounding = ''floor'', amount_usdt = Flt 50\<rparr>
          [''ETHUSDT_purchase_price.txt'' \<mapsto> ''100.00000000'']))
       = [OrderMarketSell ''ETHUSDT'' (Flt 2)]"
proof -
  let ?fs = "[''ETHUSDT_purchase_price.txt'' \<mapsto> ''100.00000000'']"
  let ?mkt = "\<lparr>free_balance = Flt 2, ticker_price = Flt 103, close_prices = [Flt 100],
            order_price = Flt 103\<rparr>"
  let ?sd = "\<lparr>symbol = ''ETHUSDT'', rounding = ''floor'', amount_usdt = Flt 50\<rparr>"
  let ?cfg = "\<lparr>RSI_PERIOD = 14, TRAILING_STOP = Flt 1, PROFIT_TARGET = Flt 2\<rparr>"
  have rd: "read_purchase_price (symbol ?sd) ?fs = Inr (Some (Flt 100))"
    by (simp add: read_purchase_price_def purchase_price_file_def py_float_def strip_def
        is_space_def split_sign_def is_digit_def signed_def nat_of_digits_def digit_val_def)
  have tr: "truthy (Some (Flt 100))" by simp
  have held: "py_gt (py_mul (free_balance ?mkt) (ticker_price ?mkt)) (Flt 1)" by simp
  have profit: "profit_percentage (Some (Flt 100)) (ticker_price ?mkt) = Inr (Flt 3)"
    by (simp add: profit_percentage_def py_truediv_def)
  show ?thesis
    using held_position_is_sold [OF rd tr held profit, of ?cfg "\<lambda>ps n. None"] rd profit
    by simp
qed

theorem held_position_is_sold_counterexample:
  "py_ge (py_mul (Flt (1 / 100)) (Flt 100)) (Flt 1)
   \<and> read_purchase_price ''ETHUSDT'' [''ETHUSDT_purchase_price.txt'' \<mapsto> ''50.00000000'']
       = Inr (Some (Flt 50))
   \<and> profit_percentage (Some (Flt 50)) (Flt 100) = Inr (Flt 100)
   \<and> py_ge (Flt 100) (Flt 2)
   \<and> fst (process_symbol \<lparr>RSI_PERIOD = 14, TRAILING_STOP = Flt 1, PROFIT_TARGET = Flt 2\<rparr>
          (\<lambda>ps n. Some (map (\<lambda>_. Flt 50) ps))
          \<lparr>free_balance = Flt (1 / 100), ticker_price = Flt 100, close_prices = [Flt 100],
            order_price = Flt 100\<rparr>
          \<lparr>symbol = ''ETHUSDT'', rounding = ''floor'', amount_usdt = Flt 50\<rparr>
          [''ETHUSDT_purchase_price.txt'' \<mapsto> ''50.00000000''])
       = [Print ''Balance worth less than $1. Skipping profit check.'']
   \<and> py_ge (py_mul (Flt 2) (Flt 5)) (Flt 1)
   \<and> read_purchase_price ''ETHUSDT'' [''ETHUSDT_purchase_price.txt'' \<mapsto> ''0.00000000'']
       = Inr (Some (Flt 0))
   \<and> should_sell_with_trailing_stop (Flt 0) (Flt 5) (Flt 2) (Flt 1)
   \<and> fst (process_symbol \<lparr>RSI_PERIOD = 14, TRAILING_STOP = Flt 1, PROFIT_TARGET = Flt 2\<rparr>
          (\<lambda>ps n. Some (map (\<lambda>_. Flt 50) ps))
          \<lparr>free_balance = Flt 2, ticker_price = Flt 5, close_prices = [Flt 100],
            order_price = Flt 5\<rparr>
          \<lparr>symbol = ''ETHUSDT'', rounding = ''floor'', amount_usdt = Flt 50\<rparr>
          [''ETHUSDT_purchase_price.txt'' \<mapsto> ''0.00000000''])
       = [Print ''Profit target not reached yet.'']"
proof -
  have rd1: "read_purchase_price ''ETHUSDT'' [''ETHUSDT_purchase_price.txt'' \<mapsto> ''50.00000000'']
       = Inr (Some (Flt 50))"
    by (simp add: read_purchase_price_def purchase_price_file_def py_float_def strip_def
        is_space_def split_sign_def is_digit_def signed_def nat_of_digits_def digit_val_def)
  have rd2: "read_purchase_price ''ETHUSDT'' [''ETHUSDT_purchase_price.txt'' \<mapsto> ''0.00000000'']
       = Inr (Some (Flt 0))"
    by (simp add: read_purchase_price_def purchase_price_file_def py_float_def strip_def
        is_space_def split_sign_def is_digit_def signed_def nat_of_digits_def digit_val_def)
  have bb: "calculate_bollinger_bands [Flt 100] 20 (Flt 2) = Inr (NaN, NaN)"
    by (simp add: calculate_bollinger_bands_def rolling_def iloc_last_def)
  have rsi: "calculate_rsi (\<lambda>ps n. Some (map (\<lambda>_. Flt 50) ps)) [Flt 100] 14 = Inr (PyFloat (Flt 50))"
    by (simp add: calculate_rsi_def assign_column_def iloc_last_def)
  have pp: "profit_percentage (Some (Flt 50)) (Flt 100) = Inr (Flt 100)"
    by (simp add: profit_percentage_def py_truediv_def)
  have ts: "should_sell_with_trailing_stop (Flt 0) (Flt 5) (Flt 2) (Flt 1)"
    by (simp add: should_sell_with_trailing_stop_def)
  show ?thesis
    by (simp add: process_symbol_def rd1 rd2 bb rsi ts exit_checks_def entry_checks_def
        dynamic_rsi_threshold_def profit_percentage_def py_truediv_def)
qed

lemma pad_digits_numeral:
  "pad_digits (numeral k) n = pad_digits (pred_numeral k) (n div 10) @ [digit_char (n mod 10)]"
  by (metis numeral_eq_Suc pad_digits.simps(2))

lemma pad_digits_1: "pad_digits 1 n = [digit_char (n mod 10)]"
  by (metis One_nat_def append_Nil pad_digits.simps)

lemma digit_char_0: "digit_char 0 = CHR ''0''"
  unfolding digit_char_def by code_simp

text \<open>
  Claim C5. Once the bands and the RSI are computed, the entry check decides to buy
  exactly when the RSI is below the dynamic threshold and the balance value is below 1.
  With an RSI that is not a number it prints nothing and orders nothing, and a buy order
  is only ever submitted under that condition.
\<close>

theorem entry_decision:
  assumes bands: "calculate_bollinger_bands (close_prices mkt) 20 (Flt 2) = Inr (upper_band, lower_band)"
      and rsi: "calculate_rsi ta_rsi (close_prices mkt) (RSI_PERIOD cfg) = Inr (PyFloat rsi)"
  shows "(Print (''Conditions met! Buying '' @ symbol sd @ ''.'')
            \<in> set (fst (entry_checks cfg ta_rsi mkt sd current_price balance_in_usd fs))
          \<longleftrightarrow> py_lt rsi (Flt (of_int (dynamic_rsi_threshold current_price upper_band lower_band)))
              \<and> py_lt balance_in_usd (Flt 1))
       \<and> (rsi = NaN \<longrightarrow> fst (entry_checks cfg ta_rsi mkt sd current_price balance_in_usd fs) = [])
       \<and> ((\<exists>e \<in> set (fst (entry_checks cfg ta_rsi mkt sd current_price balance_in_usd fs)). is_buy e)
          \<longrightarrow> py_lt rsi (Flt (of_int (dynamic_rsi_threshold current_price upper_band lower_band)))
              \<and> py_lt balance_in_usd (Flt 1))"
proof -
  let ?thr = "Flt (of_int (dynamic_rsi_threshold current_price upper_band lower_band))"
  let ?en = "entry_checks cfg ta_rsi mkt sd current_price balance_in_usd fs"
  have no: "fst ?en = []" if "\<not> (py_lt rsi ?thr \<and> py_lt balance_in_usd (Flt 1))"
    using that bands rsi by (auto simp: entry_checks_def)
  have yes: "Print (''Conditions met! Buying '' @ symbol sd @ ''.'') \<in> set (fst ?en)"
    if "py_lt rsi ?thr \<and> py_lt balance_in_usd (Flt 1)"
    using that bands rsi by (auto simp: entry_checks_def split: sum.splits)
  have nan: "fst ?en = []" if "rsi = NaN"
    using that no by (cases ?thr) auto
  show ?thesis
    using no yes nan by fastforce
qed

theorem entry_decision_witness:
  "calculate_bollinger_bands [Flt 100] 20 (Flt 2) = Inr (NaN, NaN)
   \<and> calculate_rsi (\<lambda>ps n. Some (map (\<lambda>_. Flt 25) ps)) [Flt 100] 14 = Inr (PyFloat (Flt 25))
   \<and> py_lt (Flt 25) (Flt (of_int (dynamic_rsi_threshold (Flt 100) NaN NaN)))
   \<and> py_lt (Flt (1 / 2)) (Flt 1)
   \<and> Print ''Conditions met! Buying ETHUSDT.''
        \<in> set (fst (entry_checks \<lparr>RSI_PERIOD = 14, TRAILING_STOP = Flt 1, PROFIT_TARGET = Flt 2\<rparr>
              (\<lambda>ps n. Some (map (\<lambda>_. Flt 25) ps))
              \<lparr>free_balance = Flt 0, ticker_price = Flt 100, close_prices = [Flt 100],
                order_price = Flt 100\<rparr>
              \<lparr>symbol = ''ETHUSDT'', rounding = ''floor'', amount_usdt = Flt 50\<rparr>
              (Flt 100) (Flt (1 / 2)) Map.empty))
   \<and> \<not> py_lt (Flt 5) (Flt 1)
   \<and> Print ''Conditions met! Buying ETHUSDT.''
        \<notin> set (fst (entry_checks \<lparr>RSI_PERIOD = 14, TRAILING_STOP = Flt 1, PROFIT_TARGET = Flt 2\<rparr>
              (\<lambda>ps n. Some (map (\<lambda>_. Flt 25) ps))
              \<lparr>free_balance = Flt 0, ticker_price = Flt 100, close_prices = [Flt 100],
                order_price = Flt 100\<rparr>
              \<lparr>symbol = ''ETHUSDT'', rounding = ''floor'', amount_usdt = Flt 50\<rparr>
              (Flt 100) (Flt 5) Map.empty))"
proof -
  let ?mkt = "\<lparr>free_balance = Flt 0, ticker_price = Flt 100, close_prices = [Flt 100],
                order_price = Flt 100\<rparr>"
  let ?cfg = "\<lparr>RSI_PERIOD = 14, TRAILING_STOP = Flt 1, PROFIT_TARGET = Flt 2\<rparr>"
  let ?lib = "\<lambda>(ps :: pyfloat list) (n :: int). Some (map (\<lambda>_. Flt 25) ps)"
  let ?sd = "\<lparr>symbol = ''ETHUSDT'', rounding = ''floor'', amount_usdt = Flt 50\<rparr>"
  have bb: "calculate_bollinger_bands (close_prices ?mkt) 20 (Flt 2) = Inr (NaN, NaN)"
    by (simp add: calculate_bollinger_bands_def rolling_def iloc_last_def)
  have rsi: "calculate_rsi ?lib (close_prices ?mkt) (RSI_PERIOD ?cfg) = Inr (PyFloat (Flt 25))"
    by (simp add: calculate_rsi_def assign_column_def iloc_last_def)
  have thr: "dynamic_rsi_threshold (Flt 100) NaN NaN = 27"
    by (simp add: dynamic_rsi_threshold_def)
  show ?thesis
    using entry_decision [OF bb rsi, of ?sd "Flt 100" "Flt (1 / 2)" Map.empty]
          entry_decision [OF bb rsi, of ?sd "Flt 100" "Flt 5" Map.empty]
          bb rsi thr
    by simp
qed

text \<open>
  Claim C7, as the code has it. The profit percentage is 0 for an absent purchase price
  and for a purchase price of 0.0; for every other purchase price it is
  \<open>(current_price - purchase_price) / purchase_price * 100\<close>, and it never raises. With
  an absent purchase price \<open>process_symbol\<close> submits no sell order, whatever the balance.
  The specification's formula differs at a purchase price of 0.0, where its division
  raises.
\<close>

theorem profit_percentage_cases:
  "profit_percentage None x = Inr (Flt 0)
   \<and> profit_percentage (Some (Flt 0)) x = Inr (Flt 0)
   \<and> (truthy (Some p) \<longrightarrow>
        profit_percentage (Some p) x = Inr (py_mul (py_quot (py_sub x p) p) (Flt 100)))
   \<and> (r \<noteq> 0 \<longrightarrow> profit_percentage (Some (Flt r)) (Flt c) = Inr (Flt ((c - r) / r * 100)))
   \<and> (read_purchase_price (symbol sd) fs = Inr None \<longrightarrow>
        (\<forall>e \<in> set (fst (process_symbol cfg ta_rsi mkt sd fs)). \<not> is_sell e))"
proof -
  have a: "truthy (Some p) \<longrightarrow>
        profit_percentage (Some p) x = Inr (py_mul (py_quot (py_sub x p) p) (Flt 100))"
    by (simp add: profit_percentage_truthy)
  have b: "r \<noteq> 0 \<longrightarrow> profit_percentage (Some (Flt r)) (Flt c) = Inr (Flt ((c - r) / r * 100))"
    by (simp add: profit_percentage_truthy)
  have c: "\<forall>e \<in> set (fst (process_symbol cfg ta_rsi mkt sd fs)). \<not> is_sell e"
    if rd: "read_purchase_price (symbol sd) fs = Inr None"
  proof -
    let ?biu = "py_mul (free_balance mkt) (ticker_price mkt)"
    let ?msg = "if py_gt ?biu (Flt 1) then ''Profit target not reached yet.''
                    else ''Balance worth less than $1. Skipping profit check.''"
    have ex: "exit_checks cfg (symbol sd) (free_balance mkt) (ticker_price mkt) None ?biu fs
                = Inr ([Print ?msg], fs)"
      by (rule exit_checks_falsy) simp
    have "orders (fst (process_symbol cfg ta_rsi mkt sd fs)) =
            orders [Print ?msg] @ orders (fst (entry_checks cfg ta_rsi mkt sd (ticker_price mkt) ?biu fs))"
      by (rule process_symbol_orders [OF rd ex])
    moreover have "\<forall>e \<in> set (orders (fst (entry_checks cfg ta_rsi mkt sd (ticker_price mkt) ?biu fs))). \<not> is_sell e"
      using entry_checks_orders [of cfg ta_rsi mkt sd "ticker_price mkt" ?biu fs]
      by (cases "entry_checks cfg ta_rsi mkt sd (ticker_price mkt) ?biu fs") auto
    ultimately have "\<forall>e \<in> set (orders (fst (process_symbol cfg ta_rsi mkt sd fs))). \<not> is_sell e"
      by simp
    then show ?thesis by (auto simp: orders_def)
  qed
  show ?thesis
    using a b c by (simp add: profit_percentage_falsy)
qed

theorem profit_percentage_cases_witness:
  "truthy (Some (Flt 100))
   \<and> profit_percentage (Some (Flt 100)) (Flt 103) = Inr (Flt 3)
   \<and> read_purchase_price ''ETHUSDT'' Map.empty = Inr None
   \<and> filter is_sell (fst (process_symbol \<lparr>RSI_PERIOD = 14, TRAILING_STOP = Flt 1, PROFIT_TARGET = Flt 2\<rparr>
          (\<lambda>ps n. None)
          \<lparr>free_balance = Flt 50, ticker_price = Flt 1, close_prices = [Flt 1],
            order_price = Flt 1\<rparr>
          \<lparr>symbol = ''ETHUSDT'', rounding = ''floor'', amount_usdt = Flt 50\<rparr>
          Map.empty)) = []"
proof -
  let ?sd = "\<lparr>symbol = ''ETHUSDT'', rounding = ''floor'', amount_usdt = Flt 50\<rparr>"
  have rd: "read_purchase_price (symbol ?sd) Map.empty = Inr None"
    by (simp add: read_purchase_price_def)
  show ?thesis
    using profit_percentage_cases [of "Flt 103" "Flt 100" 100 103 ?sd Map.empty
            "\<lparr>RSI_PERIOD = 14, TRAILING_STOP = Flt 1, PROFIT_TARGET = Flt 2\<rparr>" "\<lambda>ps n. None"
            "\<lparr>free_balance = Flt 50, ticker_price = Flt 1, close_prices = [Flt 1],
               order_price = Flt 1\<rparr>"] rd
    by (simp add: filter_empty_conv)
qed

theorem profit_percentage_zero_counterexample:
  "profit_percentage (Some (Flt 0)) (Flt 5) = Inr (Flt 0)
   \<and> spec_profitPercentage (Some (Flt 0)) (Flt 5) = Inl ZeroDivisionError
   \<and> profit_percentage (Some (Flt 0)) (Flt 5) \<noteq> spec_profitPercentage (Some (Flt 0)) (Flt 5)"
  by (simp add: profit_percentage_def spec_profitPercentage_def py_truediv_def)

text \<open>
  Claim C10. A stored purchase price of 0.0 is handled as an absent one: the profit is
  0 without a division, the exit checks give the same result as for an absent price (one
  printed line, no order, the files unchanged), and \<open>process_symbol\<close> submits no sell
  order, for every current price and balance.
\<close>

theorem zero_purchase_price_like_absent:
  "profit_percentage (Some (Flt 0)) current_price = Inr (Flt 0)
   \<and> profit_percentage (Some (Flt 0)) current_price = profit_percentage None current_price
   \<and> exit_checks cfg s balance current_price (Some (Flt 0)) balance_in_usd fs
       = exit_checks cfg s balance current_price None balance_in_usd fs
   \<and> (\<exists>msg. exit_checks cfg s balance current_price (Some (Flt 0)) balance_in_usd fs
               = Inr ([Print msg], fs))
   \<and> (read_purchase_price (symbol sd) fs = Inr (Some (Flt 0)) \<longrightarrow>
        (\<forall>e \<in> set (fst (process_symbol cfg ta_rsi mkt sd fs)). \<not> is_sell e))"
proof -
  have c: "\<forall>e \<in> set (fst (process_symbol cfg ta_rsi mkt sd fs)). \<not> is_sell e"
    if rd: "read_purchase_price (symbol sd) fs = Inr (Some (Flt 0))"
  proof -
    let ?biu = "py_mul (free_balance mkt) (ticker_price mkt)"
    let ?msg = "if py_gt ?biu (Flt 1) then ''Profit target not reached yet.''
                    else ''Balance worth less than $1. Skipping profit check.''"
    have ex: "exit_checks cfg (symbol sd) (free_balance mkt) (ticker_price mkt) (Some (Flt 0)) ?biu fs
                = Inr ([Print ?msg], fs)"
      by (rule exit_checks_falsy) simp
    have "orders (fst (process_symbol cfg ta_rsi mkt sd fs)) =
            orders [Print ?msg] @ orders (fst (entry_checks cfg ta_rsi mkt sd (ticker_price mkt) ?biu fs))"
      by (rule process_symbol_orders [OF rd ex])
    moreover have "\<forall>e \<in> set (orders (fst (entry_checks cfg ta_rsi mkt sd (ticker_price mkt) ?biu fs))). \<not> is_sell e"
      using entry_checks_orders [of cfg ta_rsi mkt sd "ticker_price mkt" ?biu fs]
      by (cases "entry_checks cfg ta_rsi mkt sd (ticker_price mkt) ?biu fs") auto
    ultimately have "\<forall>e \<in> set (orders (fst (process_symbol cfg ta_rsi mkt sd fs))). \<not> is_sell e"
      by simp
    then show ?thesis by (auto simp: orders_def)
  qed
  show ?thesis
    using c by (simp add: profit_percentage_falsy exit_checks_falsy)
qed

theorem zero_purchase_price_like_absent_witness:
  "read_purchase_price ''ETHUSDT'' (write_purchase_price ''ETHUSDT'' (Flt 0) Map.empty)
     = Inr (Some (Flt 0))
   \<and> should_sell_with_trailing_stop (Flt 0) (Flt 5) (Flt 2) (Flt 1)
   \<and> filter is_sell (fst (process_symbol \<lparr>RSI_PERIOD = 14, TRAILING_STOP = Flt 1, PROFIT_TARGET = Flt 2\<rparr>
          (\<lambda>ps n. None)
          \<lparr>free_balance = Flt 2, ticker_price = Flt 5, close_prices = [Flt 5],
            order_price = Flt 5\<rparr>
          \<lparr>symbol = ''ETHUSDT'', rounding = ''floor'', amount_usdt = Flt 50\<rparr>
          (write_purchase_price ''ETHUSDT'' (Flt 0) Map.empty))) = []"
proof -
  let ?sd = "\<lparr>symbol = ''ETHUSDT'', rounding = ''floor'', amount_usdt = Flt 50\<rparr>"
  let ?fs = "write_purchase_price ''ETHUSDT'' (Flt 0) Map.empty"
  have fmt: "format_8f (Flt 0) = ''0.00000000''"
    by (simp add: round_half_even_def digits_of.simps pad_digits_numeral pad_digits_1 digit_char_0)
  have rd: "read_purchase_price (symbol ?sd) ?fs = Inr (Some (Flt 0))"
    by (simp add: write_purchase_price_def fmt read_purchase_price_def purchase_price_file_def
        py_float_def strip_def is_space_def split_sign_def is_digit_def signed_def
        nat_of_digits_def digit_val_def del: format_8f.simps)
  have ts: "should_sell_with_trailing_stop (Flt 0) (Flt 5) (Flt 2) (Flt 1)"
    by (simp add: should_sell_with_trailing_stop_def)
  show ?thesis
    using zero_purchase_price_like_absent [where sd = ?sd and fs = ?fs
            and cfg = "\<lparr>RSI_PERIOD = 14, TRAILING_STOP = Flt 1, PROFIT_TARGET = Flt 2\<rparr>"
            and ta_rsi = "\<lambda>ps n. None"
            and mkt = "\<lparr>free_balance = Flt 2, ticker_price = Flt 5, close_prices = [Flt 5],
               order_price = Flt 5\<rparr>"] rd ts
    by (simp add: filter_empty_conv)
qed

section \<open>Indicators on a short history\<close>

lemma rolling_short:
  assumes "length xs < w"
  shows "rolling w f xs = replicate (length xs) NaN"
proof -
  have "rolling w f xs = map (\<lambda>i. NaN) [0..<length xs]"
    unfolding rolling_def using assms by (intro map_cong) auto
  also have "\<dots> = replicate (length xs) NaN"
    by (simp add: map_replicate_const)
  finally show ?thesis .
qed

lemma bollinger_short:
  assumes "prices \<noteq> []" and "length prices < window"
  shows "calculate_bollinger_bands prices window std_dev = Inr (NaN, NaN)"
  using assms
  by (simp add: calculate_bollinger_bands_def rolling_short iloc_last_def Let_def)

lemma bollinger_empty: "calculate_bollinger_bands [] window std_dev = Inl IndexError"
  by (simp add: calculate_bollinger_bands_def rolling_def iloc_last_def)

lemma rsi_empty: "calculate_rsi ta_rsi [] period = Inl IndexError"
  by (simp add: calculate_rsi_def assign_column_def iloc_last_def split: option.splits)

lemma rsi_nonempty:
  "prices \<noteq> [] \<Longrightarrow>
     calculate_rsi ta_rsi prices period =
       Inr (case ta_rsi prices period of
              None \<Rightarrow> PyNone
            | Some s \<Rightarrow> if length prices \<le> length s then PyFloat (s ! (length prices - 1))
                        else PyFloat NaN)"
  by (cases prices rule: rev_cases)
     (auto simp: calculate_rsi_def assign_column_def iloc_last_def Suc_le_eq split: option.splits)

text \<open>
  Claim C9, as the code has it. On a history that is not empty and shorter than the
  window of 20, \<open>calculate_bollinger_bands\<close> returns not-a-number for both bands. On
  the empty history both \<open>calculate_bollinger_bands\<close> and \<open>calculate_rsi\<close> raise
  \<open>IndexError\<close>, because \<open>iloc[-1]\<close> has no last entry to return; \<open>process_symbol\<close>
  catches it. On a history that is not empty \<open>calculate_rsi\<close> returns the last cell of
  the column that the library call fills: \<open>None\<close> when the library returns \<open>None\<close>,
  so what a short history gives there is the library's choice.
\<close>

theorem short_history_indicators:
  "(prices \<noteq> [] \<and> length prices < 20 \<longrightarrow>
      calculate_bollinger_bands prices 20 (Flt 2) = Inr (NaN, NaN))
   \<and> calculate_bollinger_bands [] 20 (Flt 2) = Inl IndexError
   \<and> calculate_rsi ta_rsi [] period = Inl IndexError
   \<and> (prices \<noteq> [] \<longrightarrow>
        calculate_rsi ta_rsi prices period =
          Inr (case ta_rsi prices period of
                 None \<Rightarrow> PyNone
               | Some s \<Rightarrow> if length prices \<le> length s then PyFloat (s ! (length prices - 1))
                           else PyFloat NaN))"
  using bollinger_short [of prices 20 "Flt 2"] bollinger_empty [of 20 "Flt 2"]
        rsi_empty [of ta_rsi period] rsi_nonempty [of prices ta_rsi period]
  by blast

theorem short_history_indicators_witness:
  "[Flt 100, Flt 101] \<noteq> [] \<and> length [Flt 100, Flt 101] < 20
   \<and> calculate_bollinger_bands [Flt 100, Flt 101] 20 (Flt 2) = Inr (NaN, NaN)
   \<and> calculate_rsi (\<lambda>ps n. None) [Flt 100, Flt 101] 14 = Inr PyNone"
  using short_history_indicators [of "[Flt 100, Flt 101]" "\<lambda>ps n. None" 14]
  by simp

theorem short_history_indicators_counterexample:
  "length ([] :: pyfloat list) < 20
   \<and> calculate_bollinger_bands [] 20 (Flt 2) = Inl IndexError
   \<and> calculate_rsi (\<lambda>ps n. Some (map (\<lambda>_. NaN) ps)) [] 14 = Inl IndexError"
  by (simp add: calculate_bollinger_bands_def rolling_def iloc_last_def calculate_rsi_def
      assign_column_def)

section \<open>Writing and reading back a purchase price\<close>

lemma of_char_digit_char: "d < 10 \<Longrightarrow> (of_char (digit_char d) :: nat) = 48 + d"
  by (simp add: digit_char_def)

lemma is_digit_digit_char: "d < 10 \<Longrightarrow> is_digit (digit_char d)"
  by (simp add: is_digit_def of_char_digit_char)

lemma digit_val_digit_char: "d < 10 \<Longrightarrow> digit_val (digit_char d) = d"
  by (simp add: digit_val_def of_char_digit_char)

lemma is_digit_plain:
  "is_digit c \<Longrightarrow> \<not> is_space c \<and> c \<noteq> CHR ''-'' \<and> c \<noteq> CHR ''+'' \<and> c \<noteq> CHR ''.'' \<and> c \<noteq> CHR ''n''"
  by (auto simp: is_digit_def is_space_def)

lemma digits_of_all: "list_all is_digit (digits_of n)"
proof (induction n rule: digits_of.induct)
  case (1 n)
  show ?case
  proof (cases "n < 10")
    case True
    then show ?thesis by (subst digits_of.simps) (simp add: is_digit_digit_char)
  next
    case False
    then show ?thesis
      using "1.IH" by (subst digits_of.simps) (simp add: is_digit_digit_char)
  qed
qed

lemma digits_of_nonempty: "digits_of n \<noteq> []"
  by (subst digits_of.simps) simp

lemma nat_of_digits_snoc: "nat_of_digits (xs @ [c]) = 10 * nat_of_digits xs + digit_val c"
  by (simp add: nat_of_digits_def)

lemma nat_of_digits_digits_of: "nat_of_digits (digits_of n) = n"
proof (induction n rule: digits_of.induct)
  case (1 n)
  show ?case
  proof (cases "n < 10")
    case True
    then show ?thesis
      by (subst digits_of.simps) (simp add: nat_of_digits_def digit_val_digit_char)
  next
    case False
    then have "nat_of_digits (digits_of (n div 10)) = n div 10" using "1.IH" by simp
    with False show ?thesis
      by (subst digits_of.simps) (simp add: nat_of_digits_snoc digit_val_digit_char)
  qed
qed

lemma pad_digits_all: "list_all is_digit (pad_digits k n)"
  by (induction k arbitrary: n) (simp_all add: is_digit_digit_char)

lemma length_pad_digits: "length (pad_digits k n) = k"
  by (induction k arbitrary: n) simp_all

lemma nat_of_digits_pad_digits: "nat_of_digits (pad_digits k n) = n mod 10 ^ k"
proof (induction k arbitrary: n)
  case 0
  then show ?case by (simp add: nat_of_digits_def)
next
  case (Suc k)
  have "n mod (10 * 10 ^ k) = 10 * (n div 10 mod 10 ^ k) + n mod 10"
    by (rule mod_mult2_eq)
  then show ?case
    using Suc.IH [of "n div 10"] by (simp add: nat_of_digits_snoc digit_val_digit_char)
qed

lemma strip_id:
  assumes "s \<noteq> []" and "\<not> is_space (hd s)" and "\<not> is_space (last s)"
  shows "strip s = s"
proof -
  have a: "dropWhile is_space s = s"
    using assms(1,2) by (cases s) auto
  have "rev s \<noteq> []" and "\<not> is_space (hd (rev s))"
    using assms(1,3) by (simp_all add: hd_rev)
  then have b: "dropWhile is_space (rev s) = rev s"
    by (cases "rev s") auto
  show ?thesis
    by (simp add: strip_def a b)
qed

lemma py_float_fixed_point:
  assumes "b < 10 ^ 8"
  shows "py_float ((if neg then ''-'' else []) @ digits_of a @ ''.'' @ pad_digits 8 b)
           = Inr (signed neg (of_nat a + of_nat b / 10 ^ 8))"
proof -
  let ?ds = "digits_of a"
  let ?fs = "pad_digits 8 b"
  let ?u = "?ds @ CHR ''.'' # ?fs"
  let ?t = "(if neg then ''-'' else []) @ ?u"
  have ds: "list_all is_digit ?ds" "?ds \<noteq> []"
    by (simp_all add: digits_of_all digits_of_nonempty)
  have fs: "list_all is_digit ?fs" "length ?fs = 8"
    by (simp_all add: pad_digits_all length_pad_digits)
  then have fs_ne: "?fs \<noteq> []" by auto
  have hd_ds: "is_digit (hd ?ds)"
    using ds by (cases ?ds) auto
  have last_fs: "is_digit (last ?fs)"
    using fs(1) fs_ne by (simp add: list_all_iff)
  have hd_u: "hd ?u = hd ?ds" using ds(2) by simp
  have last_t: "last ?t = last ?fs" using fs_ne by simp
  have hd_t: "hd ?t = (if neg then CHR ''-'' else hd ?ds)"
    using ds(2) by simp
  have t_ne: "?t \<noteq> []" using ds(2) by simp
  have "\<not> is_space (hd ?t)"
    unfolding hd_t using is_digit_plain [OF hd_ds] by (simp add: is_space_def)
  moreover have "\<not> is_space (last ?t)"
    unfolding last_t using is_digit_plain [OF last_fs] by simp
  ultimately have strip: "strip ?t = ?t"
    using t_ne by (intro strip_id)
  have "hd ?t \<noteq> CHR ''n''"
    unfolding hd_t using is_digit_plain [OF hd_ds] by simp
  then have not_nan: "?t \<noteq> ''nan''"
    by (metis list.sel(1))
  have split: "split_sign ?t = (neg, ?u)"
  proof (cases neg)
    case True
    then show ?thesis by (simp add: split_sign_def)
  next
    case False
    obtain c r where cr: "?u = c # r" "c = hd ?ds"
      using ds(2) by (cases ?ds) auto
    with is_digit_plain [OF hd_ds] False show ?thesis
      by (simp add: split_sign_def)
  qed
  have dot: "\<not> is_digit CHR ''.''"
    by (simp add: is_digit_def)
  have tw: "takeWhile is_digit ?u = ?ds"
    using ds(1) dot by (simp add: list_all_iff takeWhile_append2)
  have dw: "dropWhile is_digit ?u = CHR ''.'' # ?fs"
    using ds(1) dot by (simp add: list_all_iff dropWhile_append2)
  have val: "nat_of_digits ?ds = a" "nat_of_digits ?fs = b"
    using assms by (simp_all add: nat_of_digits_digits_of nat_of_digits_pad_digits)
  have "py_float ?t = Inr (signed neg (of_nat a + of_nat b / 10 ^ 8))"
    unfolding py_float_def strip Let_def split
    using not_nan ds(2) fs val by (simp add: tw dw)
  then show ?thesis by simp
qed

lemma round_half_even_nonneg: "0 \<le> x \<Longrightarrow> 0 \<le> round_half_even x"
proof -
  assume "0 \<le> x"
  then have "0 \<le> \<lfloor>x\<rfloor>" by simp
  then show ?thesis by (simp add: round_half_even_def Let_def)
qed

lemma round_half_even_of_int: "round_half_even (of_int k) = k"
  by (simp add: round_half_even_def)

lemma div_mod_real:
  assumes "0 < d"
  shows "real (n div d) + real (n mod d) / real d = real n / real d"
proof -
  have "real n = real (n div d) * real d + real (n mod d)"
    by (metis div_mult_mod_eq of_nat_add of_nat_mult)
  then show ?thesis
    using assms by (simp add: field_simps)
qed

lemma py_float_format_8f:
  "py_float (format_8f (Flt p)) =
     Inr (Flt ((if p < 0 then - 1 else 1) * of_int (round_half_even (\<bar>p\<bar> * 10 ^ 8)) / 10 ^ 8))"
proof -
  define n where "n = nat (round_half_even (\<bar>p\<bar> * 10 ^ 8))"
  have "0 \<le> round_half_even (\<bar>p\<bar> * 10 ^ 8)"
    by (rule round_half_even_nonneg) simp
  then have n: "real n = of_int (round_half_even (\<bar>p\<bar> * 10 ^ 8))"
    by (simp add: n_def)
  have fmt: "format_8f (Flt p) =
      (if p < 0 then ''-'' else []) @ digits_of (n div 10 ^ 8) @ ''.'' @ pad_digits 8 (n mod 10 ^ 8)"
    by (simp add: n_def Let_def)
  have split: "real (n div 10 ^ 8) + real (n mod 10 ^ 8) / 10 ^ 8 = real n / 10 ^ 8"
    using div_mod_real [of "10 ^ 8" n] by simp
  have "py_float (format_8f (Flt p)) =
      Inr (signed (p < 0) (real (n div 10 ^ 8) + real (n mod 10 ^ 8) / 10 ^ 8))"
    unfolding fmt by (rule py_float_fixed_point) simp
  then show ?thesis
    unfolding split n by (simp add: signed_def)
qed

lemma py_float_nan: "py_float ''nan'' = Inr NaN"
  by (simp add: py_float_def strip_def is_space_def)

lemma read_write_purchase_price:
  "read_purchase_price s (write_purchase_price s (Flt p) fs) =
     Inr (Some (Flt ((if p < 0 then - 1 else 1) * of_int (round_half_even (\<bar>p\<bar> * 10 ^ 8)) / 10 ^ 8)))"
  by (simp add: read_purchase_price_def write_purchase_price_def py_float_format_8f
      del: format_8f.simps)

lemma read_write_exact:
  assumes "p * 10 ^ 8 \<in> \<int>"
  shows "read_purchase_price s (write_purchase_price s (Flt p) fs) = Inr (Some (Flt p))"
proof -
  obtain k :: int where k: "p * 10 ^ 8 = of_int k"
    using assms by (auto elim: Ints_cases)
  have "\<bar>p\<bar> * 10 ^ 8 = \<bar>p * 10 ^ 8\<bar>" by (simp add: abs_mult)
  also have "\<dots> = \<bar>real_of_int k\<bar>" by (simp only: k)
  also have "\<dots> = of_int \<bar>k\<bar>" by simp
  finally have e: "\<bar>p\<bar> * 10 ^ 8 = of_int \<bar>k\<bar>" .
  have r: "round_half_even (\<bar>p\<bar> * 10 ^ 8) = \<bar>k\<bar>"
    unfolding e by (rule round_half_even_of_int)
  have sgn: "p < 0 \<longleftrightarrow> k < 0"
  proof -
    have "p * 10 ^ 8 < 0 \<longleftrightarrow> p < 0" by (simp add: mult_less_0_iff)
    moreover have "p * 10 ^ 8 < 0 \<longleftrightarrow> k < 0" unfolding k by simp
    ultimately show ?thesis by blast
  qed
  have "(if p < 0 then - 1 else 1) * real_of_int \<bar>k\<bar> = of_int k"
    using sgn by auto
  then have "(if p < 0 then - 1 else 1) * real_of_int \<bar>k\<bar> / 10 ^ 8 = p"
    using k by (simp add: field_simps)
  then show ?thesis
    unfolding read_write_purchase_price r by simp
qed

lemma read_write_nan:
  "read_purchase_price s (write_purchase_price s NaN fs) = Inr (Some NaN)"
  by (simp add: read_purchase_price_def write_purchase_price_def py_float_nan)

lemma read_clear_write:
  "read_purchase_price s (clear_purchase_price s (write_purchase_price s price fs)) = Inr None"
  by (simp add: read_purchase_price_def clear_purchase_price_def write_purchase_price_def
      del: format_8f.simps)

text \<open>
  Claim C8, as the code has it. \<open>write_purchase_price\<close> stores the price in the
  \<open>.8f\<close> format, so reading it back returns the price rounded to eight decimal places
  (half to even): the price itself exactly when it is a whole number of units of
  0.00000001. A price that is not a number is stored as \<open>nan\<close> and read back as
  not-a-number. After \<open>clear_purchase_price\<close> the read returns \<open>None\<close>, whatever was
  written.
\<close>

theorem purchase_price_roundtrip:
  "read_purchase_price s (write_purchase_price s (Flt p) fs) =
     Inr (Some (Flt ((if p < 0 then - 1 else 1) * of_int (round_half_even (\<bar>p\<bar> * 10 ^ 8)) / 10 ^ 8)))
   \<and> (p * 10 ^ 8 \<in> \<int> \<longrightarrow>
        read_purchase_price s (write_purchase_price s (Flt p) fs) = Inr (Some (Flt p)))
   \<and> read_purchase_price s (write_purchase_price s NaN fs) = Inr (Some NaN)
   \<and> read_purchase_price s (clear_purchase_price s (write_purchase_price s price fs)) = Inr None"
  using read_write_purchase_price [of s p fs] read_write_exact [of p s fs]
        read_write_nan [of s fs] read_clear_write [of s price fs]
  by blast

theorem purchase_price_roundtrip_witness:
  "(2345.67 :: real) * 10 ^ 8 \<in> \<int>
   \<and> read_purchase_price ''ETHUSDT'' (write_purchase_price ''ETHUSDT'' (Flt 2345.67) Map.empty)
       = Inr (Some (Flt 2345.67))
   \<and> read_purchase_price ''ETHUSDT''
         (clear_purchase_price ''ETHUSDT'' (write_purchase_price ''ETHUSDT'' (Flt 2345.67) Map.empty))
       = Inr None"
proof -
  have i: "(2345.67 :: real) * 10 ^ 8 \<in> \<int>"
  proof -
    have "(2345.67 :: real) * 10 ^ 8 = of_int 234567000000" by simp
    then show ?thesis by (simp only: Ints_of_int)
  qed
  show ?thesis
    using purchase_price_roundtrip [of "''ETHUSDT''" "2345.67" Map.empty "Flt 2345.67"] i
    by blast
qed

theorem purchase_price_roundtrip_counterexample:
  "read_purchase_price ''DOGEUSDT'' (write_purchase_price ''DOGEUSDT'' (Flt 0.123456789) Map.empty)
     = Inr (Some (Flt 0.12345679))
   \<and> Flt 0.12345679 \<noteq> Flt 0.123456789"
proof -
  have "round_half_even (\<bar>0.123456789\<bar> * 10 ^ 8) = 12345679"
    by (simp add: round_half_even_def)
  then show ?thesis
    unfolding read_write_purchase_price by simp
qed

end
